theory Spec2Isabelle
  imports Main
begin

section \<open>The syntax tree read by tsjoi\<close>

text \<open>
  tsjoi reads the tree produced by the TypeScript parser and never changes it. Only the
  parts of a node that \<^verbatim>\<open>src/tsjoi.ts\<close> looks at are kept. A node's \<^verbatim>\<open>kind\<close> tag
  determines its class, so each class of node is a constructor and \<open>kind\<close> is computed
  from it.
\<close>

text \<open>
  The kinds of the keyword type nodes that the parser builds. The keyword \<^verbatim>\<open>this\<close> is
  not among them: in a type position the parser builds a node of kind \<^verbatim>\<open>ThisType\<close>
  for it.
\<close>

datatype KeywordTypeSyntaxKind =
    AnyKeyword | UnknownKeyword | NumberKeyword | BigIntKeyword | ObjectKeyword
  | BooleanKeyword | StringKeyword | SymbolKeyword | VoidKeyword
  | UndefinedKeyword | NullKeyword | NeverKeyword

text \<open>The kinds of the type nodes that \<^verbatim>\<open>type2joi\<close> has no case for and never casts.\<close>

datatype OtherTypeSyntaxKind =
    TypePredicate | FunctionType | ConstructorType | TypeQuery | TupleType | OptionalType
  | RestType | IntersectionType | ConditionalType | InferType | ParenthesizedType
  | ThisType | TypeOperator | IndexedAccessType | MappedType | ImportType

text \<open>
  \<^verbatim>\<open>ts.SyntaxKind\<close>, as far as type nodes and the case labels of \<^verbatim>\<open>type2joi\<close> go.
  \<^verbatim>\<open>ThisKeyword\<close> is the kind of the token \<^verbatim>\<open>this\<close>; no type node has it.
\<close>

datatype SyntaxKind =
    Keyword KeywordTypeSyntaxKind
  | ThisKeyword
  | UnionType | ArrayType | TypeLiteral | TypeReference | LiteralType
  | OtherType OtherTypeSyntaxKind

text \<open>
  An identifier has the text it was written with (\<^verbatim>\<open>getText()\<close>) and the text the
  parser stores for it (\<^verbatim>\<open>escapedText\<close>).
\<close>

datatype Identifier = Identifier (escapedText: string) (identifierText: string)

datatype EntityName =
    EntityIdentifier Identifier
  | QualifiedName EntityName Identifier

datatype PropertyName =
    IdentifierName Identifier
  | StringLiteralName string
  | NumericLiteralName string
  | ComputedPropertyName string

text \<open>The \<^verbatim>\<open>literal\<close> of a \<^verbatim>\<open>ts.LiteralTypeNode\<close>; a string literal has its \<^verbatim>\<open>text\<close>.\<close>

datatype LiteralExpression =
    StringLiteral (literalText: string)
  | NumericLiteral string
  | BooleanLiteral bool
  | PrefixUnaryExpression string

text \<open>
  A keyword type node keeps its source text, which \<^verbatim>\<open>getText()\<close> returns: it is the
  keyword as it was written, escapes included.
\<close>

datatype TypeNode =
    KeywordTypeNode KeywordTypeSyntaxKind string
  | UnionTypeNode "TypeNode list"
  | ArrayTypeNode TypeNode
  | TypeLiteralNode "TypeElement list"
  | TypeReferenceNode EntityName
  | LiteralTypeNode LiteralExpression
  | OtherTypeNode OtherTypeSyntaxKind string
and TypeElement =
    PropertySignatureElement PropertySignature
  | OtherTypeElement string
and PropertySignature =
    PropertySignature (signatureName: PropertyName) (questionToken: bool)
      (signatureType: "TypeNode option")

datatype Statement =
    InterfaceDeclaration Identifier "TypeElement list"
  | TypeAliasDeclaration Identifier TypeNode
  | OtherStatement string

fun kind :: "TypeNode \<Rightarrow> SyntaxKind" where
  "kind (KeywordTypeNode k txt) = Keyword k"
| "kind (UnionTypeNode ts) = UnionType"
| "kind (ArrayTypeNode t) = ArrayType"
| "kind (TypeLiteralNode ms) = TypeLiteral"
| "kind (TypeReferenceNode n) = TypeReference"
| "kind (LiteralTypeNode l) = LiteralType"
| "kind (OtherTypeNode k txt) = OtherType k"

fun isIdentifier :: "PropertyName \<Rightarrow> bool" where
  "isIdentifier (IdentifierName i) = True"
| "isIdentifier n = False"

fun isStringLiteralType :: "TypeNode \<Rightarrow> bool" where
  "isStringLiteralType (LiteralTypeNode (StringLiteral s)) = True"
| "isStringLiteralType t = False"

text \<open>\<^verbatim>\<open>members.filter(ts.isPropertySignature)\<close>, which also narrows the element type.\<close>

fun propertySignatures :: "TypeElement list \<Rightarrow> PropertySignature list" where
  "propertySignatures [] = []"
| "propertySignatures (PropertySignatureElement p # ms) = p # propertySignatures ms"
| "propertySignatures (OtherTypeElement txt # ms) = propertySignatures ms"

fun isInterfaceDeclaration :: "Statement \<Rightarrow> bool" where
  "isInterfaceDeclaration (InterfaceDeclaration n ms) = True"
| "isInterfaceDeclaration s = False"

fun isTypeAliasDeclaration :: "Statement \<Rightarrow> bool" where
  "isTypeAliasDeclaration (TypeAliasDeclaration n t) = True"
| "isTypeAliasDeclaration s = False"

section \<open>Errors and JavaScript library functions\<close>

text \<open>
  The three \<^verbatim>\<open>throw new Error(...)\<close> of the source. The message of each is fixed text
  followed by the source text of the node, so the error value keeps the node.
\<close>

datatype Error =
    CannotConvertUnion "TypeNode list"
  | CannotConvertQualifiedName EntityName
  | CannotConvertType TypeNode

text \<open>
  \<^verbatim>\<open>Array.prototype.map\<close> with a callback that can throw: the elements are visited from
  left to right and the first exception ends the loop.
\<close>

fun mapE :: "('a \<Rightarrow> 'e + 'b) \<Rightarrow> 'a list \<Rightarrow> 'e + 'b list" where
  "mapE f [] = Inr []"
| "mapE f (x # xs) =
     (case f x of
        Inl e \<Rightarrow> Inl e
      | Inr y \<Rightarrow> (case mapE f xs of Inl e \<Rightarrow> Inl e | Inr ys \<Rightarrow> Inr (y # ys)))"

lemma mapE_ext: "(\<And>x. x \<in> set xs \<Longrightarrow> f x = g x) \<Longrightarrow> mapE f xs = mapE g xs"
  by (induction xs) (simp_all split: sum.splits)

lemma mapE_cong [fundef_cong]:
  "xs = ys \<Longrightarrow> (\<And>x. x \<in> set ys \<Longrightarrow> f x = g x) \<Longrightarrow> mapE f xs = mapE g ys"
  using mapE_ext [of ys f g] by simp

text \<open>
  \<^verbatim>\<open>Array.prototype.join\<close>: an element that is \<^verbatim>\<open>null\<close> is joined as the empty
  string, and still gets its separator.
\<close>

fun toJoined :: "string option \<Rightarrow> string" where
  "toJoined None = ''''"
| "toJoined (Some s) = s"

fun join :: "string \<Rightarrow> string option list \<Rightarrow> string" where
  "join sep [] = ''''"
| "join sep [x] = toJoined x"
| "join sep (x # y # ys) = toJoined x @ sep @ join sep (y # ys)"

text \<open>\<^verbatim>\<open>Array(indent).fill(' ').join('')\<close>\<close>

definition spaces :: "nat \<Rightarrow> string" where
  "spaces indent = replicate indent (CHR '' '')"

definition endsWith :: "string \<Rightarrow> string \<Rightarrow> bool" where
  "endsWith s suf = (length suf \<le> length s \<and> drop (length s - length suf) s = suf)"

section \<open>The compiler\<close>

text \<open>
  The functions of \<^verbatim>\<open>src/tsjoi.ts\<close>. The module variable \<^verbatim>\<open>SUFFIX\<close> is set once by
  \<^verbatim>\<open>ts2joi\<close> before any of them runs and is only read afterwards; it is their first
  argument here. A function that can throw returns \<open>Error + _\<close>.
\<close>

definition requiredMarker :: "bool \<Rightarrow> string" where
  "requiredMarker required = (if required then ''.required()'' else '''')"

text \<open>The eleven keyword case labels of the \<^verbatim>\<open>switch (tp.kind)\<close> in \<^verbatim>\<open>type2joi\<close>.\<close>

definition supportedKeywords :: "SyntaxKind list" where
  "supportedKeywords =
     [Keyword AnyKeyword, Keyword NumberKeyword, Keyword ObjectKeyword, Keyword BooleanKeyword,
      Keyword StringKeyword, Keyword SymbolKeyword, ThisKeyword, Keyword VoidKeyword,
      Keyword UndefinedKeyword, Keyword NullKeyword, Keyword NeverKeyword]"

text \<open>All case labels of the \<^verbatim>\<open>switch (tp.kind)\<close> in \<^verbatim>\<open>type2joi\<close>.\<close>

definition dispatchTable :: "SyntaxKind list" where
  "dispatchTable =
     supportedKeywords @ [UnionType, ArrayType, TypeLiteral, TypeReference]"

fun reference2joi :: "string \<Rightarrow> EntityName \<Rightarrow> Error + string" where
  "reference2joi SUFFIX (EntityIdentifier i) = Inr (escapedText i @ SUFFIX)"
| "reference2joi SUFFIX (QualifiedName q i) = Inl (CannotConvertQualifiedName (QualifiedName q i))"

function type2joi :: "string \<Rightarrow> TypeNode \<Rightarrow> bool \<Rightarrow> nat \<Rightarrow> Error + string"
and union2joi :: "string \<Rightarrow> TypeNode list \<Rightarrow> Error + string"
and array2joi :: "string \<Rightarrow> TypeNode \<Rightarrow> Error + string"
and literal2joi :: "string \<Rightarrow> TypeElement list \<Rightarrow> nat \<Rightarrow> Error + string"
and propList2joi :: "string \<Rightarrow> TypeElement list \<Rightarrow> nat \<Rightarrow> Error + string"
and prop2joi :: "string \<Rightarrow> PropertySignature \<Rightarrow> nat \<Rightarrow> Error + string option"
where
  "type2joi SUFFIX (KeywordTypeNode k txt) required indent =
     (if Keyword k \<in> set supportedKeywords
      then Inr (''Joi.'' @ txt @ ''()'' @ requiredMarker required)
      else Inl (CannotConvertType (KeywordTypeNode k txt)))"
| "type2joi SUFFIX (UnionTypeNode ts) required indent =
     (case union2joi SUFFIX ts of
        Inl e \<Rightarrow> Inl e
      | Inr s \<Rightarrow> Inr (s @ requiredMarker required))"
| "type2joi SUFFIX (ArrayTypeNode elementType) required indent =
     (case array2joi SUFFIX elementType of
        Inl e \<Rightarrow> Inl e
      | Inr s \<Rightarrow> Inr (s @ requiredMarker required))"
| "type2joi SUFFIX (TypeLiteralNode members) required indent =
     (case literal2joi SUFFIX members indent of
        Inl e \<Rightarrow> Inl e
      | Inr s \<Rightarrow> Inr (s @ requiredMarker required))"
| "type2joi SUFFIX (TypeReferenceNode typeName) required indent =
     (case reference2joi SUFFIX typeName of
        Inl e \<Rightarrow> Inl e
      | Inr s \<Rightarrow> Inr (s @ requiredMarker required))"
| "type2joi SUFFIX (LiteralTypeNode l) required indent =
     Inl (CannotConvertType (LiteralTypeNode l))"
| "type2joi SUFFIX (OtherTypeNode k txt) required indent =
     Inl (CannotConvertType (OtherTypeNode k txt))"
| "union2joi SUFFIX ts =
     (let types = map kind ts in
      if length ts = 2 \<and> Keyword NullKeyword \<in> set types then
        (let notnull = (if types ! 0 = Keyword NullKeyword then ts ! 1 else ts ! 0) in
         case type2joi SUFFIX notnull False 0 of
           Inl e \<Rightarrow> Inl e
         | Inr s \<Rightarrow> Inr (s @ ''.allow(null)''))
      else if list_all isStringLiteralType ts then
        (let values = map (\<lambda>x. ''\"'' @ x @ ''\"'')
                        (map (\<lambda>x. case x of LiteralTypeNode l \<Rightarrow> literalText l) ts) in
         Inr (''Joi.string().valid(['' @ join '', '' (map Some values) @ ''])''))
      else Inl (CannotConvertUnion ts))"
| "array2joi SUFFIX elementType =
     (case type2joi SUFFIX elementType False 0 of
        Inl e \<Rightarrow> Inl e
      | Inr s \<Rightarrow> Inr (''Joi.array().items('' @ s @ '')''))"
| "literal2joi SUFFIX members indent = propList2joi SUFFIX members indent"
| "propList2joi SUFFIX members indent =
     (let prefix = spaces indent in
      case mapE (\<lambda>x. prop2joi SUFFIX x (indent + 2))
             (filter (\<lambda>x. isIdentifier (signatureName x)) (propertySignatures members)) of
        Inl e \<Rightarrow> Inl e
      | Inr props \<Rightarrow>
          Inr (''Joi.object({\<newline>'' @ join '',\<newline>'' props @ ''\<newline>'' @ prefix @ ''})''))"
| "prop2joi SUFFIX (PropertySignature n q ty) indent =
     (case n of
        IdentifierName i \<Rightarrow>
          (case ty of
             Some t \<Rightarrow>
               (let required = (if q then False else True) in
                case type2joi SUFFIX t required indent of
                  Inl e \<Rightarrow> Inl e
                | Inr typeStr \<Rightarrow>
                    (let prefix = spaces indent in
                     Inr (Some (prefix @ escapedText i @ '': '' @ typeStr))))
           | None \<Rightarrow> Inr None)
      | _ \<Rightarrow> Inr None)"
  by pat_completeness auto


lemma size_member_less: "t \<in> set ts \<Longrightarrow> size t < size_list size (ts :: TypeNode list)"
  by (induction ts) auto

lemma size_nth_less: "i < length ts \<Longrightarrow> size (ts ! i) < size_list size (ts :: TypeNode list)"
  by (simp add: size_member_less)

lemma size_propertySignatures:
  "p \<in> set (propertySignatures ms) \<Longrightarrow> size p + 2 \<le> size_list size ms"
  by (induction ms rule: propertySignatures.induct) auto

termination type2joi
proof (relation "measure (\<lambda>x. case x of
      Inl (Inl (s, tp, r, i)) \<Rightarrow> 3 * size tp
    | Inl (Inr (Inl (s, ts))) \<Rightarrow> 3 * size_list size ts
    | Inl (Inr (Inr (s, el))) \<Rightarrow> 3 * size el + 1
    | Inr (Inl (s, ms, i)) \<Rightarrow> 3 * size_list size ms + 2
    | Inr (Inr (Inl (s, ms, i))) \<Rightarrow> 3 * size_list size ms + 1
    | Inr (Inr (Inr (s, p, i))) \<Rightarrow> 3 * size p)", goal_cases)
  case 1
  show ?case by simp
next
  case (2 SUFFIX ts required indent)
  show ?case by simp
next
  case (3 SUFFIX elementType required indent)
  show ?case by simp
next
  case (4 SUFFIX members required indent)
  show ?case by simp
next
  case (5 SUFFIX ts x xa)
  then have "size xa < size_list size ts"
    by (auto simp: size_nth_less)
  then show ?case by simp
next
  case (6 SUFFIX elementType)
  show ?case by simp
next
  case (7 SUFFIX members indent)
  show ?case by simp
next
  case (8 SUFFIX members indent x xa)
  then have "size xa + 2 \<le> size_list size members"
    using size_propertySignatures [of xa members] by simp
  then show ?case by simp
next
  case (9 SUFFIX n q ty indent x1 x2 x)
  then show ?case by simp
qed

definition makeTypeGuard :: "string \<Rightarrow> string \<Rightarrow> string \<Rightarrow> string" where
  "makeTypeGuard name type schema =
     ''export function '' @ name @ ''(obj: any): obj is T.'' @ type @ '' {\<newline>'' @
     ''  return '' @ schema @ ''.validate(obj).error === null\<newline>'' @
     ''}\<newline>''"

fun stmt2joi :: "string \<Rightarrow> Statement \<Rightarrow> Error + string option" where
  "stmt2joi SUFFIX (InterfaceDeclaration nodeName members) =
     (let identifier = identifierText nodeName in
      case propList2joi SUFFIX members 0 of
        Inl e \<Rightarrow> Inl e
      | Inr properties \<Rightarrow>
          (let name = identifier @ SUFFIX;
               guard = makeTypeGuard (''is'' @ name) identifier name in
           Inr (Some (''export const '' @ name @ '' = '' @ properties @ ''\<newline>'' @ guard))))"
| "stmt2joi SUFFIX (TypeAliasDeclaration nodeName nodeType) =
     (let identifier = identifierText nodeName in
      case type2joi SUFFIX nodeType False 0 of
        Inl e \<Rightarrow> Inl e
      | Inr typeStr \<Rightarrow>
          (let name = identifier @ SUFFIX;
               guard = makeTypeGuard (''is'' @ name) identifier name in
           Inr (Some (''export const '' @ name @ '' = '' @ typeStr @ ''\<newline>'' @ guard))))"
| "stmt2joi SUFFIX (OtherStatement txt) = Inr None"

text \<open>
  \<^verbatim>\<open>Partial<Options>\<close>: a key that is absent is \<open>None\<close>, and \<^verbatim>\<open>ts2joi\<close> fills in
  its defaults for \<^verbatim>\<open>suffix\<close> and \<^verbatim>\<open>input\<close>.
\<close>

record Options =
  input :: "string option"
  outputFd :: "nat option"
  suffix :: "string option"

text \<open>
  \<^verbatim>\<open>ts2joi\<close>. The parser \<^verbatim>\<open>ts.createSourceFile\<close> is an argument: it is given the
  file name and the text and returns the statements of the source file.
\<close>

definition ts2joi ::
  "(string \<Rightarrow> string \<Rightarrow> Statement list) \<Rightarrow> string \<Rightarrow> Options \<Rightarrow> Error + string" where
  "ts2joi createSourceFile txt options =
     (let opts_suffix = (case suffix options of None \<Rightarrow> '''' | Some s \<Rightarrow> s);
          opts_input = (case input options of None \<Rightarrow> ''foo.ts'' | Some i \<Rightarrow> i);
          SUFFIX = opts_suffix;
          statements = createSourceFile opts_input txt
      in case mapE (stmt2joi SUFFIX) statements of
           Inl e \<Rightarrow> Inl e
         | Inr results \<Rightarrow>
             (let ifaces = join ''\<newline>\<newline>'' (filter (\<lambda>x. x \<noteq> None) results);
                  fname = (if endsWith opts_input ''.ts''
                           then take (length opts_input - 3) opts_input
                           else opts_input);
                  importLine =
                    ''// Automatically generated by tsjoi\<newline>'' @
                    ''import Joi from '' @ [CHR 0x27] @ ''joi'' @ [CHR 0x27] @ ''\<newline>'' @
                    ''import * as T from '' @ [CHR 0x27] @ ''./'' @ fname @ [CHR 0x27] @
                    ''\<newline>'' @
                    ''\<newline>''
              in Inr (importLine @ ifaces)))"


section \<open>Helper lemmas\<close>

lemma kind_Keyword_iff: "kind t = Keyword k \<longleftrightarrow> (\<exists>txt. t = KeywordTypeNode k txt)"
  by (cases t) auto

lemma kind_not_ThisKeyword: "kind t \<noteq> ThisKeyword"
  by (cases t) auto

text \<open>A \<^verbatim>\<open>null\<close> keyword node is rendered with the text it was written with.\<close>

lemma null_keyword_rendering:
  "type2joi S (KeywordTypeNode NullKeyword n) required indent =
     Inr (''Joi.'' @ n @ ''()'' @ requiredMarker required)"
  by (simp add: supportedKeywords_def)

text \<open>\<^verbatim>\<open>union2joi\<close> on a union of two members.\<close>

lemma union2joi_two:
  "union2joi SUFFIX [a, b] =
     (if kind a = Keyword NullKeyword \<or> kind b = Keyword NullKeyword
      then (case type2joi SUFFIX (if kind a = Keyword NullKeyword then b else a) False 0 of
              Inl e \<Rightarrow> Inl e
            | Inr s \<Rightarrow> Inr (s @ ''.allow(null)''))
      else if isStringLiteralType a \<and> isStringLiteralType b
      then Inr (''Joi.string().valid(['' @
                join '', ''
                  (map (\<lambda>x. Some (''\"'' @ (case x of LiteralTypeNode l \<Rightarrow> literalText l) @ ''\"''))
                     [a, b]) @ ''])'')
      else Inl (CannotConvertUnion [a, b]))"
  by (auto simp: Let_def)

text \<open>\<^verbatim>\<open>union2joi\<close> on string-literal types.\<close>

lemma string_literal_members:
  "list_all isStringLiteralType (map (\<lambda>v. LiteralTypeNode (StringLiteral v)) vs)"
  by (induction vs) auto

lemma string_literal_kinds:
  "Keyword k \<notin> set (map kind (map (\<lambda>v. LiteralTypeNode (StringLiteral v)) vs))"
  by (induction vs) auto

lemma union2joi_string_literals:
  "union2joi S (map (\<lambda>v. LiteralTypeNode (StringLiteral v)) vs) =
     Inr (''Joi.string().valid(['' @ join '', '' (map (\<lambda>v. Some (''\"'' @ v @ ''\"'')) vs) @ ''])'')"
  using string_literal_members [of vs] string_literal_kinds [of NullKeyword vs]
  by (simp add: Let_def comp_def)

text \<open>A loop over an array stops at the first element whose callback throws.\<close>

lemma mapE_first_error:
  "List.find (\<lambda>x. isl (f x)) xs = Some d \<Longrightarrow> f d = Inl e \<Longrightarrow> mapE f xs = Inl e"
proof (induction xs)
  case Nil
  then show ?case by simp
next
  case (Cons x xs)
  show ?case
  proof (cases "f x")
    case (Inl e')
    with Cons.prems show ?thesis by simp
  next
    case (Inr y)
    with Cons.prems have "List.find (\<lambda>x. isl (f x)) xs = Some d" by simp
    with Cons.IH Cons.prems(2) have "mapE f xs = Inl e" by simp
    with Inr show ?thesis by simp
  qed
qed

lemma find_error_exists:
  "x \<in> set xs \<Longrightarrow> f x = Inl e \<Longrightarrow>
   \<exists>d e'. List.find (\<lambda>x. isl (f x)) xs = Some d \<and> f d = Inl e'"
proof (induction xs)
  case Nil
  then show ?case by simp
next
  case (Cons y ys)
  show ?case
  proof (cases "f y")
    case (Inl e')
    then show ?thesis by simp
  next
    case (Inr r)
    with Cons.prems have "x \<in> set ys" by auto
    with Cons.IH Cons.prems(2) Inr show ?thesis by simp
  qed
qed

text \<open>Elements whose callback returns \<^verbatim>\<open>null\<close> do not change what is left after the
  \<^verbatim>\<open>null\<close>s are filtered out.\<close>

lemma mapE_skip:
  "(\<And>x. \<not> P x \<Longrightarrow> f x = Inr None) \<Longrightarrow>
   (case mapE f (filter P xs) of Inl e \<Rightarrow> Inl e | Inr rs \<Rightarrow> Inr (filter (\<lambda>x. x \<noteq> None) rs)) =
   (case mapE f xs of Inl e \<Rightarrow> Inl e | Inr rs \<Rightarrow> Inr (filter (\<lambda>x. x \<noteq> None) rs))"
  by (induction xs) (auto split: sum.splits)

lemma ts2joi_unfold:
  "ts2joi createSourceFile txt options =
     (let opts_suffix = (case suffix options of None \<Rightarrow> '''' | Some s \<Rightarrow> s);
          opts_input = (case input options of None \<Rightarrow> ''foo.ts'' | Some i \<Rightarrow> i)
      in case (case mapE (stmt2joi opts_suffix) (createSourceFile opts_input txt) of
                 Inl e \<Rightarrow> Inl e
               | Inr rs \<Rightarrow> Inr (filter (\<lambda>x. x \<noteq> None) rs)) of
           Inl e \<Rightarrow> Inl e
         | Inr outs \<Rightarrow>
             Inr (''// Automatically generated by tsjoi\<newline>'' @
                  ''import Joi from '' @ [CHR 0x27] @ ''joi'' @ [CHR 0x27] @ ''\<newline>'' @
                  ''import * as T from '' @ [CHR 0x27] @ ''./'' @
                  (if endsWith opts_input ''.ts'' then take (length opts_input - 3) opts_input
                   else opts_input) @ [CHR 0x27] @
                  ''\<newline>'' @
                  ''\<newline>'' @ join ''\<newline>\<newline>'' outs))"
  by (simp add: ts2joi_def Let_def split: sum.splits)

section \<open>Errors travel upwards unchanged\<close>

text \<open>
  No function of the compiler catches an exception: an error of a callee is the error of
  its caller, from the element of an array, the member of a nullable union, the type of a
  property and the members of an object literal up to the declaration.
\<close>

lemma array_error_propagates:
  "type2joi S elementType False 0 = Inl e \<Longrightarrow>
   type2joi S (ArrayTypeNode elementType) required indent = Inl e"
  by simp

lemma nullable_error_propagates:
  "type2joi S T False 0 = Inl e \<Longrightarrow>
   type2joi S (UnionTypeNode [T, KeywordTypeNode NullKeyword n]) required indent = Inl e"
proof -
  assume err: "type2joi S T False 0 = Inl e"
  have "kind T \<noteq> Keyword NullKeyword"
  proof
    assume "kind T = Keyword NullKeyword"
    then obtain m where "T = KeywordTypeNode NullKeyword m"
      by (auto simp: kind_Keyword_iff)
    with err show False
      by (simp add: null_keyword_rendering del: type2joi.simps)
  qed
  with err show ?thesis
    by (simp add: union2joi_two del: union2joi.simps)
qed

lemma nullable_error_propagates_left:
  "type2joi S T False 0 = Inl e \<Longrightarrow>
   type2joi S (UnionTypeNode [KeywordTypeNode NullKeyword n, T]) required indent = Inl e"
  by (simp add: union2joi_two del: union2joi.simps)

lemma object_literal_error_propagates:
  "propList2joi S members indent = Inl e \<Longrightarrow>
   type2joi S (TypeLiteralNode members) required indent = Inl e"
  by (simp del: propList2joi.simps)

lemma prop2joi_error_propagates:
  "type2joi S t (\<not> q) indent = Inl e \<Longrightarrow>
   prop2joi S (PropertySignature (IdentifierName i) q (Some t)) indent = Inl e"
  by (cases q) simp_all

lemma propList2joi_error_propagates:
  "List.find (\<lambda>p. isl (prop2joi S p (indent + 2)))
     (filter (\<lambda>x. isIdentifier (signatureName x)) (propertySignatures members)) = Some p \<Longrightarrow>
   prop2joi S p (indent + 2) = Inl e \<Longrightarrow>
   propList2joi S members indent = Inl e"
  using mapE_first_error [of "\<lambda>p. prop2joi S p (indent + 2)"
      "filter (\<lambda>x. isIdentifier (signatureName x)) (propertySignatures members)" p e]
  by (simp add: Let_def del: prop2joi.simps)

lemma stmt2joi_error_propagates:
  "propList2joi S members 0 = Inl e \<Longrightarrow> stmt2joi S (InterfaceDeclaration n members) = Inl e"
  "type2joi S t False 0 = Inl e \<Longrightarrow> stmt2joi S (TypeAliasDeclaration n t) = Inl e"
  by (simp_all add: Let_def del: propList2joi.simps)

text \<open>A declaration fails exactly when the rendering inside it fails, with the same error.\<close>

lemma stmt2joi_error_iff:
  "stmt2joi S d = Inl e \<longleftrightarrow>
     (case d of
        InterfaceDeclaration n members \<Rightarrow> propList2joi S members 0 = Inl e
      | TypeAliasDeclaration n t \<Rightarrow> type2joi S t False 0 = Inl e
      | OtherStatement txt \<Rightarrow> False)"
  by (cases d) (simp_all add: Let_def del: propList2joi.simps split: sum.splits)

section \<open>Members that are not rendered\<close>

text \<open>
  Members that are not property signatures and properties whose name is not an identifier
  are filtered out before the loop of \<^verbatim>\<open>propList2joi\<close>: removing them from the input
  changes nothing, and the remaining properties keep their order.
\<close>

lemma propertySignatures_filter:
  "propertySignatures
     (filter (\<lambda>m. case m of PropertySignatureElement p \<Rightarrow> isIdentifier (signatureName p)
                    | OtherTypeElement txt \<Rightarrow> False) ms) =
   filter (\<lambda>x. isIdentifier (signatureName x)) (propertySignatures ms)"
  by (induction ms rule: propertySignatures.induct) simp_all

lemma propList2joi_ignores_unnamed:
  "propList2joi S
     (filter (\<lambda>m. case m of PropertySignatureElement p \<Rightarrow> isIdentifier (signatureName p)
                    | OtherTypeElement txt \<Rightarrow> False) ms) indent =
   propList2joi S ms indent"
  by (simp add: propertySignatures_filter del: prop2joi.simps)

section \<open>Nullable unions\<close>

text \<open>
  C1, as stated, at the union \<^verbatim>\<open>string | null\<close> rendered as a required field: the
  output is not the non-required rendering of \<^verbatim>\<open>string\<close> followed by
  \<^verbatim>\<open>.allow(null)\<close>, because \<^verbatim>\<open>type2joi\<close> appends the required marker after what
  \<^verbatim>\<open>union2joi\<close> returns.
\<close>

theorem nullable_union_required_counterexample:
  "type2joi '''' (UnionTypeNode [KeywordTypeNode StringKeyword ''string'', KeywordTypeNode NullKeyword ''null'']) True 0
     = Inr ''Joi.string().allow(null).required()''
   \<and> type2joi '''' (KeywordTypeNode StringKeyword ''string'') False 0 = Inr ''Joi.string()''
   \<and> ''Joi.string().allow(null).required()'' \<noteq> ''Joi.string()'' @ ''.allow(null)''"
  by (simp add: union2joi_two supportedKeywords_def requiredMarker_def del: union2joi.simps)

text \<open>
  C1, amended: for every type expression \<open>T\<close>, every required flag and every indent,
  rendering \<^verbatim>\<open>T | null\<close> or \<^verbatim>\<open>null | T\<close> renders \<open>T\<close> as non-required at indent 0,
  appends \<^verbatim>\<open>.allow(null)\<close> and then the required marker of the caller's flag; when
  rendering \<open>T\<close> fails, the union fails with the same error. \<open>T\<close> is any type
  expression, so this holds recursively. The \<^verbatim>\<open>null\<close> member is a keyword node of kind
  \<^verbatim>\<open>NullKeyword\<close> with any source text \<open>n\<close>. In \<^verbatim>\<open>T | null\<close> with \<open>T\<close> itself a
  \<^verbatim>\<open>null\<close> keyword, the member rendered is the second one, which is \<open>T\<close> up to the
  way \<^verbatim>\<open>null\<close> was written.
\<close>

theorem nullable_union_rendering:
  "type2joi SUFFIX (UnionTypeNode [T, KeywordTypeNode NullKeyword n]) required indent =
     (case type2joi SUFFIX
             (if kind T = Keyword NullKeyword then KeywordTypeNode NullKeyword n else T) False 0 of
        Inl e \<Rightarrow> Inl e
      | Inr s \<Rightarrow> Inr (s @ ''.allow(null)'' @ requiredMarker required))
   \<and> type2joi SUFFIX (UnionTypeNode [KeywordTypeNode NullKeyword n, T]) required indent =
     (case type2joi SUFFIX T False 0 of
        Inl e \<Rightarrow> Inl e
      | Inr s \<Rightarrow> Inr (s @ ''.allow(null)'' @ requiredMarker required))"
  by (simp add: union2joi_two del: union2joi.simps type2joi.simps(1) split: sum.splits)

text \<open>The example \<^verbatim>\<open>string[] | null\<close>, as a required and as an optional field.\<close>

lemma nullable_array_example:
  "type2joi '''' (UnionTypeNode [ArrayTypeNode (KeywordTypeNode StringKeyword ''string''),
      KeywordTypeNode NullKeyword ''null'']) True 4 = Inr ''Joi.array().items(Joi.string()).allow(null).required()''"
  "type2joi '''' (UnionTypeNode [ArrayTypeNode (KeywordTypeNode StringKeyword ''string''),
      KeywordTypeNode NullKeyword ''null'']) False 4 = Inr ''Joi.array().items(Joi.string()).allow(null)''"
  by (simp_all add: union2joi_two supportedKeywords_def requiredMarker_def del: union2joi.simps)

section \<open>Unsupported unions\<close>

text \<open>
  C2: a union that is neither of exactly two members with a \<^verbatim>\<open>null\<close> among them nor
  made of string-literal types only is not rendered: \<^verbatim>\<open>type2joi\<close> fails with the
  error thrown at the end of \<^verbatim>\<open>union2joi\<close>, whatever the required flag and indent.
\<close>

theorem unsupported_union_fails:
  "\<not> (length ts = 2 \<and> Keyword NullKeyword \<in> set (map kind ts)) \<Longrightarrow>
   \<not> list_all isStringLiteralType ts \<Longrightarrow>
   type2joi SUFFIX (UnionTypeNode ts) required indent = Inl (CannotConvertUnion ts)"
  by (auto simp: Let_def)

text \<open>
  C2, witness: the unions \<^verbatim>\<open>number | boolean\<close>, \<^verbatim>\<open>number | string | boolean\<close> and
  \<^verbatim>\<open>"a" | null | "b"\<close> all fail.
\<close>

theorem unsupported_union_fails_witness:
  "type2joi '''' (UnionTypeNode [KeywordTypeNode NumberKeyword ''number'', KeywordTypeNode BooleanKeyword ''boolean'']) True 0
     = Inl (CannotConvertUnion [KeywordTypeNode NumberKeyword ''number'', KeywordTypeNode BooleanKeyword ''boolean''])
   \<and> type2joi '''' (UnionTypeNode [KeywordTypeNode NumberKeyword ''number'', KeywordTypeNode StringKeyword ''string'',
          KeywordTypeNode BooleanKeyword ''boolean'']) False 2
     = Inl (CannotConvertUnion [KeywordTypeNode NumberKeyword ''number'', KeywordTypeNode StringKeyword ''string'',
          KeywordTypeNode BooleanKeyword ''boolean''])
   \<and> type2joi '''' (UnionTypeNode [LiteralTypeNode (StringLiteral ''a''), KeywordTypeNode NullKeyword ''null'',
          LiteralTypeNode (StringLiteral ''b'')]) False 0
     = Inl (CannotConvertUnion [LiteralTypeNode (StringLiteral ''a''), KeywordTypeNode NullKeyword ''null'',
          LiteralTypeNode (StringLiteral ''b'')])"
  using unsupported_union_fails [of "[KeywordTypeNode NumberKeyword ''number'', KeywordTypeNode BooleanKeyword ''boolean'']" "''''" True 0]
    unsupported_union_fails [of "[KeywordTypeNode NumberKeyword ''number'', KeywordTypeNode StringKeyword ''string'',
          KeywordTypeNode BooleanKeyword ''boolean'']" "''''" False 2]
    unsupported_union_fails [of "[LiteralTypeNode (StringLiteral ''a''), KeywordTypeNode NullKeyword ''null'',
          LiteralTypeNode (StringLiteral ''b'')]" "''''" False 0]
  by simp

section \<open>Property lists\<close>

text \<open>
  C3, at the members of \<^verbatim>\<open>interface Foo { a; b: string }\<close>: the property \<^verbatim>\<open>a\<close> has no
  type annotation, \<^verbatim>\<open>prop2joi\<close> returns \<^verbatim>\<open>null\<close> for it, and \<^verbatim>\<open>join\<close> still
  writes its separator, so the body starts with a line holding a comma alone. Without the
  property \<^verbatim>\<open>a\<close> the body has the line of \<^verbatim>\<open>b\<close> only.
\<close>

theorem untyped_property_leaves_separator:
  "propList2joi ''''
     [PropertySignatureElement (PropertySignature (IdentifierName (Identifier ''a'' ''a'')) False None),
      PropertySignatureElement (PropertySignature (IdentifierName (Identifier ''b'' ''b'')) False
        (Some (KeywordTypeNode StringKeyword ''string'')))] 0 =
     Inr ''Joi.object({\<newline>,\<newline>  b: Joi.string().required()\<newline>})''
   \<and> propList2joi ''''
     [PropertySignatureElement (PropertySignature (IdentifierName (Identifier ''b'' ''b'')) False
        (Some (KeywordTypeNode StringKeyword ''string'')))] 0 =
     Inr ''Joi.object({\<newline>  b: Joi.string().required()\<newline>})''"
  by (simp add: supportedKeywords_def requiredMarker_def spaces_def numeral_2_eq_2)

section \<open>One unsupported construct fails the whole module\<close>

text \<open>
  C4: when compiling some declaration of the module raises an error, which it does exactly
  when a rendering inside it raised, \<^verbatim>\<open>ts2joi\<close> returns no text at all: it fails with
  the error of the first declaration that fails, whatever the other declarations are.
\<close>

theorem whole_file_fail:
  assumes "d \<in> set (createSourceFile (case input options of None \<Rightarrow> ''foo.ts'' | Some i \<Rightarrow> i) txt)"
    and "stmt2joi (case suffix options of None \<Rightarrow> '''' | Some s \<Rightarrow> s) d = Inl e"
  shows "\<exists>d0 e0.
      List.find (\<lambda>s. isl (stmt2joi (case suffix options of None \<Rightarrow> '''' | Some s \<Rightarrow> s) s))
        (createSourceFile (case input options of None \<Rightarrow> ''foo.ts'' | Some i \<Rightarrow> i) txt) = Some d0
    \<and> stmt2joi (case suffix options of None \<Rightarrow> '''' | Some s \<Rightarrow> s) d0 = Inl e0
    \<and> ts2joi createSourceFile txt options = Inl e0"
proof -
  let ?S = "case suffix options of None \<Rightarrow> '''' | Some s \<Rightarrow> s"
  let ?stmts = "createSourceFile (case input options of None \<Rightarrow> ''foo.ts'' | Some i \<Rightarrow> i) txt"
  from assms obtain d0 e0 where
    first: "List.find (\<lambda>s. isl (stmt2joi ?S s)) ?stmts = Some d0" and err: "stmt2joi ?S d0 = Inl e0"
    using find_error_exists [of d ?stmts "stmt2joi ?S" e] by blast
  then have "mapE (stmt2joi ?S) ?stmts = Inl e0"
    by (rule mapE_first_error)
  then have "ts2joi createSourceFile txt options = Inl e0"
    by (simp add: ts2joi_unfold Let_def)
  with first err show ?thesis by blast
qed

text \<open>
  C4, witness: the module \<^verbatim>\<open>interface Foo { a: string }; type Bar = number | boolean\<close>.
  The interface compiles on its own, and the module fails with the error of the alias.
\<close>

theorem whole_file_fail_witness:
  "ts2joi
     (\<lambda>i t. [InterfaceDeclaration (Identifier ''Foo'' ''Foo'')
                [PropertySignatureElement
                   (PropertySignature (IdentifierName (Identifier ''a'' ''a'')) False
                      (Some (KeywordTypeNode StringKeyword ''string'')))],
              TypeAliasDeclaration (Identifier ''Bar'' ''Bar'')
                (UnionTypeNode [KeywordTypeNode NumberKeyword ''number'', KeywordTypeNode BooleanKeyword ''boolean''])])
     ''interface Foo { a: string }; type Bar = number | boolean''
     \<lparr>input = None, outputFd = None, suffix = None\<rparr>
   = Inl (CannotConvertUnion [KeywordTypeNode NumberKeyword ''number'', KeywordTypeNode BooleanKeyword ''boolean''])
   \<and> isl (stmt2joi ''''
        (InterfaceDeclaration (Identifier ''Foo'' ''Foo'')
                [PropertySignatureElement
                   (PropertySignature (IdentifierName (Identifier ''a'' ''a'')) False
                      (Some (KeywordTypeNode StringKeyword ''string'')))])) = False"
  using whole_file_fail
    [of "TypeAliasDeclaration (Identifier ''Bar'' ''Bar'')
                (UnionTypeNode [KeywordTypeNode NumberKeyword ''number'', KeywordTypeNode BooleanKeyword ''boolean''])"
        "\<lambda>i t. [InterfaceDeclaration (Identifier ''Foo'' ''Foo'')
                [PropertySignatureElement
                   (PropertySignature (IdentifierName (Identifier ''a'' ''a'')) False
                      (Some (KeywordTypeNode StringKeyword ''string'')))],
              TypeAliasDeclaration (Identifier ''Bar'' ''Bar'')
                (UnionTypeNode [KeywordTypeNode NumberKeyword ''number'', KeywordTypeNode BooleanKeyword ''boolean''])]"
        "\<lparr>input = None, outputFd = None, suffix = None\<rparr>"
        "''interface Foo { a: string }; type Bar = number | boolean''"
        "CannotConvertUnion [KeywordTypeNode NumberKeyword ''number'', KeywordTypeNode BooleanKeyword ''boolean'']"]
  by (simp add: union2joi_two supportedKeywords_def Let_def del: union2joi.simps)

section \<open>Generated names\<close>

text \<open>
  C5: for every suffix \<open>S\<close> and every interface declaration whose name is written
  \<open>Foo\<close>, the schema binding is named \<open>Foo @ S\<close>, the type guard is named
  \<open>''is'' @ Foo @ S\<close>, the guard asserts the type \<open>T.Foo\<close> without the suffix, and its
  body validates the candidate against the binding \<open>Foo @ S\<close>.
\<close>

theorem declaration_names:
  "stmt2joi S (InterfaceDeclaration (Identifier esc Foo) members) =
     (case propList2joi S members 0 of
        Inl e \<Rightarrow> Inl e
      | Inr properties \<Rightarrow>
          Inr (Some (''export const '' @ Foo @ S @ '' = '' @ properties @ ''\<newline>'' @
                     ''export function is'' @ Foo @ S @ ''(obj: any): obj is T.'' @ Foo @ '' {\<newline>'' @
                     ''  return '' @ Foo @ S @ ''.validate(obj).error === null\<newline>'' @
                     ''}\<newline>'')))"
  by (simp add: makeTypeGuard_def Let_def del: propList2joi.simps split: sum.splits)

section \<open>Unions of string literals\<close>

text \<open>
  C6: a union whose members are the string-literal types of the values \<open>vs\<close> is rendered
  as \<^verbatim>\<open>Joi.string().valid([...])\<close> listing exactly the values of \<open>vs\<close>, each between
  double quotes, in the order of \<open>vs\<close>; when the members are rearranged by a list of
  positions \<open>p\<close>, the emitted values are rearranged by the same \<open>p\<close>.
\<close>

theorem string_literal_union:
  "type2joi S (UnionTypeNode (map (\<lambda>v. LiteralTypeNode (StringLiteral v)) vs)) required indent =
     Inr (''Joi.string().valid(['' @ join '', '' (map (\<lambda>v. Some (''\"'' @ v @ ''\"'')) vs) @ ''])'' @
          requiredMarker required)
   \<and> (list_all (\<lambda>i. i < length vs) p \<longrightarrow>
        type2joi S (UnionTypeNode (map (\<lambda>v. LiteralTypeNode (StringLiteral v)) (map (\<lambda>i. vs ! i) p)))
          required indent =
        Inr (''Joi.string().valid(['' @
             join '', '' (map (\<lambda>i. map (\<lambda>v. Some (''\"'' @ v @ ''\"'')) vs ! i) p) @ ''])'' @
             requiredMarker required))"
proof -
  let ?q = "\<lambda>v. Some (''\"'' @ v @ ''\"'')"
  have perm: "map ?q (map (\<lambda>i. vs ! i) p) = map (\<lambda>i. map ?q vs ! i) p"
    if "list_all (\<lambda>i. i < length vs) p"
    using that by (induction p) auto
  have one: "type2joi S (UnionTypeNode (map (\<lambda>v. LiteralTypeNode (StringLiteral v)) ws)) required indent =
      Inr (''Joi.string().valid(['' @ join '', '' (map ?q ws) @ ''])'' @ requiredMarker required)" for ws
    by (simp add: union2joi_string_literals del: union2joi.simps)
  show ?thesis
  proof (intro conjI impI)
    show "type2joi S (UnionTypeNode (map (\<lambda>v. LiteralTypeNode (StringLiteral v)) vs)) required indent =
      Inr (''Joi.string().valid(['' @ join '', '' (map ?q vs) @ ''])'' @ requiredMarker required)"
      by (rule one)
  next
    assume "list_all (\<lambda>i. i < length vs) p"
    then have "map (\<lambda>i. map ?q vs ! i) p = map ?q (map (\<lambda>i. vs ! i) p)"
      by (rule perm [symmetric])
    then show "type2joi S (UnionTypeNode (map (\<lambda>v. LiteralTypeNode (StringLiteral v)) (map (\<lambda>i. vs ! i) p)))
          required indent =
        Inr (''Joi.string().valid(['' @ join '', '' (map (\<lambda>i. map ?q vs ! i) p) @ ''])'' @
             requiredMarker required)"
      using one [of "map (\<lambda>i. vs ! i) p"] by (simp only:)
  qed
qed

text \<open>
  C6, witness: \<^verbatim>\<open>"a" | "b" | "c"\<close> and its rearrangement \<^verbatim>\<open>"c" | "a" | "b"\<close>.
\<close>

theorem string_literal_union_witness:
  "type2joi '''' (UnionTypeNode [LiteralTypeNode (StringLiteral ''a''), LiteralTypeNode (StringLiteral ''b''),
      LiteralTypeNode (StringLiteral ''c'')]) False 0 = Inr ''Joi.string().valid([\"a\", \"b\", \"c\"])''
   \<and> type2joi '''' (UnionTypeNode [LiteralTypeNode (StringLiteral ''c''), LiteralTypeNode (StringLiteral ''a''),
      LiteralTypeNode (StringLiteral ''b'')]) False 0 = Inr ''Joi.string().valid([\"c\", \"a\", \"b\"])''"
  using string_literal_union [of "''''" "[''a'', ''b'', ''c'']" False 0 "[2, 0, 1]"]
  by (simp add: requiredMarker_def)

section \<open>Primitive keywords and the dispatch table\<close>

text \<open>
  A keyword type node whose kind is a case label of the \<^verbatim>\<open>switch\<close> is rendered as
  \<^verbatim>\<open>Joi.<text>()\<close>, where the text is the source text of the node, followed by
  \<^verbatim>\<open>.required()\<close> exactly when the field is required.
\<close>

lemma keyword_rendering:
  "Keyword k \<in> set supportedKeywords \<Longrightarrow>
     type2joi S (KeywordTypeNode k txt) True indent = Inr (''Joi.'' @ txt @ ''()'' @ ''.required()'')
   \<and> type2joi S (KeywordTypeNode k txt) False indent = Inr (''Joi.'' @ txt @ ''()'')"
  by (simp add: requiredMarker_def)

text \<open>The ten keywords that are rendered, as they are usually written.\<close>

lemma keyword_rendering_examples:
  "map (\<lambda>tp. type2joi '''' tp True 0)
     [KeywordTypeNode AnyKeyword ''any'', KeywordTypeNode NumberKeyword ''number'',
      KeywordTypeNode ObjectKeyword ''object'', KeywordTypeNode BooleanKeyword ''boolean'',
      KeywordTypeNode StringKeyword ''string'', KeywordTypeNode SymbolKeyword ''symbol'',
      KeywordTypeNode VoidKeyword ''void'', KeywordTypeNode UndefinedKeyword ''undefined'',
      KeywordTypeNode NullKeyword ''null'', KeywordTypeNode NeverKeyword ''never''] =
   [Inr ''Joi.any().required()'', Inr ''Joi.number().required()'', Inr ''Joi.object().required()'',
    Inr ''Joi.boolean().required()'', Inr ''Joi.string().required()'', Inr ''Joi.symbol().required()'',
    Inr ''Joi.void().required()'', Inr ''Joi.undefined().required()'', Inr ''Joi.null().required()'',
    Inr ''Joi.never().required()'']"
  "map (\<lambda>tp. type2joi '''' tp False 0)
     [KeywordTypeNode AnyKeyword ''any'', KeywordTypeNode NumberKeyword ''number'',
      KeywordTypeNode ObjectKeyword ''object'', KeywordTypeNode BooleanKeyword ''boolean'',
      KeywordTypeNode StringKeyword ''string'', KeywordTypeNode SymbolKeyword ''symbol'',
      KeywordTypeNode VoidKeyword ''void'', KeywordTypeNode UndefinedKeyword ''undefined'',
      KeywordTypeNode NullKeyword ''null'', KeywordTypeNode NeverKeyword ''never''] =
   [Inr ''Joi.any()'', Inr ''Joi.number()'', Inr ''Joi.object()'', Inr ''Joi.boolean()'',
    Inr ''Joi.string()'', Inr ''Joi.symbol()'', Inr ''Joi.void()'', Inr ''Joi.undefined()'',
    Inr ''Joi.null()'', Inr ''Joi.never()'']"
  by (simp_all add: supportedKeywords_def requiredMarker_def)

text \<open>A type node whose kind is no case label fails with the error thrown at the end of
  \<^verbatim>\<open>type2joi\<close>.\<close>

lemma outside_dispatch_fails:
  "kind tp \<notin> set dispatchTable \<Longrightarrow> type2joi S tp required indent = Inl (CannotConvertType tp)"
  by (cases tp) (auto simp: dispatchTable_def)

text \<open>
  C7, at the type \<^verbatim>\<open>this\<close>, as in \<^verbatim>\<open>interface Foo { self: this }\<close>: the \<^verbatim>\<open>switch\<close> has
  the case label \<^verbatim>\<open>ThisKeyword\<close>, but the node that the parser builds for \<^verbatim>\<open>this\<close> in
  a type position has the kind \<^verbatim>\<open>ThisType\<close>, and no type node has the kind
  \<^verbatim>\<open>ThisKeyword\<close>. So \<^verbatim>\<open>this\<close> is not rendered as \<^verbatim>\<open>Joi.this()\<close>: \<^verbatim>\<open>type2joi\<close> fails
  on it, as a required and as an optional field.
\<close>

theorem this_type_not_rendered:
  "ThisKeyword \<in> set supportedKeywords
   \<and> (\<forall>tp. kind tp \<noteq> ThisKeyword)
   \<and> kind (OtherTypeNode ThisType ''this'') = OtherType ThisType
   \<and> type2joi '''' (OtherTypeNode ThisType ''this'') True 0 =
       Inl (CannotConvertType (OtherTypeNode ThisType ''this''))
   \<and> type2joi '''' (OtherTypeNode ThisType ''this'') False 0 =
       Inl (CannotConvertType (OtherTypeNode ThisType ''this''))
   \<and> prop2joi '''' (PropertySignature (IdentifierName (Identifier ''self'' ''self'')) False
         (Some (OtherTypeNode ThisType ''this''))) 2 =
       Inl (CannotConvertType (OtherTypeNode ThisType ''this''))"
  by (simp add: supportedKeywords_def kind_not_ThisKeyword)

section \<open>Declarations of other kinds\<close>

text \<open>
  C8: a statement that is neither an interface declaration nor a type alias declaration
  makes \<^verbatim>\<open>stmt2joi\<close> return \<^verbatim>\<open>null\<close> without an error, and \<^verbatim>\<open>ts2joi\<close> returns for a
  module what it returns for the module without such statements: they add no text and no
  failure.
\<close>

theorem other_declarations_skipped:
  "(\<not> isInterfaceDeclaration d \<and> \<not> isTypeAliasDeclaration d \<longrightarrow> stmt2joi S d = Inr None)
   \<and> ts2joi (\<lambda>i t. filter (\<lambda>d. isInterfaceDeclaration d \<or> isTypeAliasDeclaration d) (createSourceFile i t))
        txt options
     = ts2joi createSourceFile txt options"
proof -
  have skip: "stmt2joi S' d' = Inr None"
    if "\<not> (isInterfaceDeclaration d' \<or> isTypeAliasDeclaration d')" for S' d'
    using that by (cases d') simp_all
  show ?thesis
    using skip [of d S]
    by (simp add: ts2joi_unfold Let_def mapE_skip [where f = "stmt2joi _", OF skip])
qed

text \<open>
  C8, witness: the module \<^verbatim>\<open>class A {}; type Bar = string[]\<close> compiles to the header
  followed by the binding and the guard of \<^verbatim>\<open>Bar\<close>, as the module without the class does.
\<close>

theorem other_declarations_skipped_witness:
  "stmt2joi '''' (OtherStatement ''class A {}'') = Inr None
   \<and> ts2joi
       (\<lambda>i t. [OtherStatement ''class A {}'',
                TypeAliasDeclaration (Identifier ''Bar'' ''Bar'') (ArrayTypeNode (KeywordTypeNode StringKeyword ''string''))])
       ''class A {}; type Bar = string[]''
       \<lparr>input = None, outputFd = None, suffix = None\<rparr>
     = ts2joi
       (\<lambda>i t. [TypeAliasDeclaration (Identifier ''Bar'' ''Bar'') (ArrayTypeNode (KeywordTypeNode StringKeyword ''string''))])
       ''class A {}; type Bar = string[]''
       \<lparr>input = None, outputFd = None, suffix = None\<rparr>
   \<and> ts2joi
       (\<lambda>i t. [OtherStatement ''class A {}'',
                TypeAliasDeclaration (Identifier ''Bar'' ''Bar'') (ArrayTypeNode (KeywordTypeNode StringKeyword ''string''))])
       ''class A {}; type Bar = string[]''
       \<lparr>input = None, outputFd = None, suffix = None\<rparr>
     = Inr (''// Automatically generated by tsjoi\<newline>'' @
            ''import Joi from '' @ [CHR 0x27] @ ''joi'' @ [CHR 0x27] @ ''\<newline>'' @
            ''import * as T from '' @ [CHR 0x27] @ ''./foo'' @ [CHR 0x27] @ ''\<newline>'' @
            ''\<newline>'' @
            ''export const Bar = Joi.array().items(Joi.string())\<newline>'' @
            ''export function isBar(obj: any): obj is T.Bar {\<newline>'' @
            ''  return Bar.validate(obj).error === null\<newline>'' @
            ''}\<newline>'')"
  using other_declarations_skipped
    [of "OtherStatement ''class A {}''" "''''"
        "\<lambda>i t. [OtherStatement ''class A {}'',
                TypeAliasDeclaration (Identifier ''Bar'' ''Bar'') (ArrayTypeNode (KeywordTypeNode StringKeyword ''string''))]"
        "''class A {}; type Bar = string[]''"
        "\<lparr>input = None, outputFd = None, suffix = None\<rparr>"]
  by (simp add: ts2joi_def supportedKeywords_def requiredMarker_def makeTypeGuard_def endsWith_def
        Let_def)

section \<open>Indentation inside arrays and nullable unions\<close>

text \<open>
  C9: the element of an array and the member of a nullable union that is not \<^verbatim>\<open>null\<close>
  are rendered as not required and at indent 0, whatever the required flag and the indent
  of the array or union are. So an object literal inside them is laid out from column 0:
  in a property at indent 2, the fields of \<^verbatim>\<open>{ b: string }[]\<close> and of
  \<^verbatim>\<open>{ b: string } | null\<close> start at column 2 and the closing brace at column 0, while
  those of \<^verbatim>\<open>{ b: string }\<close> itself start at column 4 and the closing brace at column 2.
  The \<^verbatim>\<open>null\<close> member is a keyword node of kind \<^verbatim>\<open>NullKeyword\<close> with any source text
  \<open>n\<close>; when both members are \<^verbatim>\<open>null\<close>, the second is the one rendered.
\<close>

theorem array_element_rendering:
  "type2joi S (ArrayTypeNode elementType) required indent =
     (case type2joi S elementType False 0 of
        Inl e \<Rightarrow> Inl e
      | Inr s \<Rightarrow> Inr (''Joi.array().items('' @ s @ '')'' @ requiredMarker required))
   \<and> type2joi S (UnionTypeNode [T, KeywordTypeNode NullKeyword n]) required indent =
     (case type2joi S (if kind T = Keyword NullKeyword then KeywordTypeNode NullKeyword n else T)
             False 0 of
        Inl e \<Rightarrow> Inl e
      | Inr s \<Rightarrow> Inr (s @ ''.allow(null)'' @ requiredMarker required))
   \<and> type2joi S (UnionTypeNode [KeywordTypeNode NullKeyword n, T]) required indent =
     (case type2joi S T False 0 of
        Inl e \<Rightarrow> Inl e
      | Inr s \<Rightarrow> Inr (s @ ''.allow(null)'' @ requiredMarker required))
   \<and> prop2joi ''''
        (PropertySignature (IdentifierName (Identifier ''a'' ''a'')) False
           (Some (ArrayTypeNode (TypeLiteralNode
              [PropertySignatureElement
                 (PropertySignature (IdentifierName (Identifier ''b'' ''b'')) False
                    (Some (KeywordTypeNode StringKeyword ''string'')))])))) 2 =
       Inr (Some ''  a: Joi.array().items(Joi.object({\<newline>  b: Joi.string().required()\<newline>})).required()'')
   \<and> prop2joi ''''
        (PropertySignature (IdentifierName (Identifier ''a'' ''a'')) False
           (Some (UnionTypeNode [TypeLiteralNode
              [PropertySignatureElement
                 (PropertySignature (IdentifierName (Identifier ''b'' ''b'')) False
                    (Some (KeywordTypeNode StringKeyword ''string'')))], KeywordTypeNode NullKeyword ''null'']))) 2 =
       Inr (Some ''  a: Joi.object({\<newline>  b: Joi.string().required()\<newline>}).allow(null).required()'')
   \<and> prop2joi ''''
        (PropertySignature (IdentifierName (Identifier ''a'' ''a'')) False
           (Some (TypeLiteralNode
              [PropertySignatureElement
                 (PropertySignature (IdentifierName (Identifier ''b'' ''b'')) False
                    (Some (KeywordTypeNode StringKeyword ''string'')))]))) 2 =
       Inr (Some ''  a: Joi.object({\<newline>    b: Joi.string().required()\<newline>  }).required()'')"
proof -
  have general: "type2joi S (ArrayTypeNode elementType) required indent =
     (case type2joi S elementType False 0 of
        Inl e \<Rightarrow> Inl e
      | Inr s \<Rightarrow> Inr (''Joi.array().items('' @ s @ '')'' @ requiredMarker required))
   \<and> type2joi S (UnionTypeNode [T, KeywordTypeNode NullKeyword n]) required indent =
     (case type2joi S (if kind T = Keyword NullKeyword then KeywordTypeNode NullKeyword n else T)
             False 0 of
        Inl e \<Rightarrow> Inl e
      | Inr s \<Rightarrow> Inr (s @ ''.allow(null)'' @ requiredMarker required))
   \<and> type2joi S (UnionTypeNode [KeywordTypeNode NullKeyword n, T]) required indent =
     (case type2joi S T False 0 of
        Inl e \<Rightarrow> Inl e
      | Inr s \<Rightarrow> Inr (s @ ''.allow(null)'' @ requiredMarker required))"
    by (simp add: union2joi_two del: union2joi.simps type2joi.simps(1) split: sum.splits)
  have examples: "prop2joi ''''
        (PropertySignature (IdentifierName (Identifier ''a'' ''a'')) False
           (Some (ArrayTypeNode (TypeLiteralNode
              [PropertySignatureElement
                 (PropertySignature (IdentifierName (Identifier ''b'' ''b'')) False
                    (Some (KeywordTypeNode StringKeyword ''string'')))])))) 2 =
       Inr (Some ''  a: Joi.array().items(Joi.object({\<newline>  b: Joi.string().required()\<newline>})).required()'')
   \<and> prop2joi ''''
        (PropertySignature (IdentifierName (Identifier ''a'' ''a'')) False
           (Some (UnionTypeNode [TypeLiteralNode
              [PropertySignatureElement
                 (PropertySignature (IdentifierName (Identifier ''b'' ''b'')) False
                    (Some (KeywordTypeNode StringKeyword ''string'')))], KeywordTypeNode NullKeyword ''null'']))) 2 =
       Inr (Some ''  a: Joi.object({\<newline>  b: Joi.string().required()\<newline>}).allow(null).required()'')
   \<and> prop2joi ''''
        (PropertySignature (IdentifierName (Identifier ''a'' ''a'')) False
           (Some (TypeLiteralNode
              [PropertySignatureElement
                 (PropertySignature (IdentifierName (Identifier ''b'' ''b'')) False
                    (Some (KeywordTypeNode StringKeyword ''string'')))]))) 2 =
       Inr (Some ''  a: Joi.object({\<newline>    b: Joi.string().required()\<newline>  }).required()'')"
    by (simp add: union2joi_two supportedKeywords_def requiredMarker_def spaces_def
          numeral_2_eq_2 numeral_Bit0 del: union2joi.simps)
  from general examples show ?thesis by (simp only: simp_thms)
qed

section \<open>A union of two nulls\<close>

text \<open>
  C10: the union \<^verbatim>\<open>null | null\<close> is rendered, not rejected. Its first member is
  \<^verbatim>\<open>null\<close>, so the second member is the one rendered: the output is the \<^verbatim>\<open>null\<close>
  primitive named with the source text \<open>n2\<close> of the second member, then
  \<^verbatim>\<open>.allow(null)\<close>, then \<^verbatim>\<open>.required()\<close> when the caller's flag is true and nothing when
  it is false. That is what a union with a first member \<^verbatim>\<open>null\<close> and any second member
  \<open>b\<close> gives: \<open>b\<close> rendered as not required at indent 0, \<^verbatim>\<open>.allow(null)\<close> and the
  required marker of the caller's flag.
\<close>

theorem double_null_union:
  "type2joi S (UnionTypeNode [KeywordTypeNode NullKeyword n1, KeywordTypeNode NullKeyword n2]) True indent =
     Inr (''Joi.'' @ n2 @ ''().allow(null).required()'')
   \<and> type2joi S (UnionTypeNode [KeywordTypeNode NullKeyword n1, KeywordTypeNode NullKeyword n2]) False indent =
     Inr (''Joi.'' @ n2 @ ''().allow(null)'')
   \<and> type2joi '''' (UnionTypeNode [KeywordTypeNode NullKeyword ''null'', KeywordTypeNode NullKeyword ''null''])
        True 0 = Inr ''Joi.null().allow(null).required()''
   \<and> type2joi '''' (UnionTypeNode [KeywordTypeNode NullKeyword ''null'', KeywordTypeNode NullKeyword ''null''])
        False 0 = Inr ''Joi.null().allow(null)''
   \<and> type2joi S (UnionTypeNode [KeywordTypeNode NullKeyword n1, b]) True indent =
     (case type2joi S b False 0 of
        Inl e \<Rightarrow> Inl e
      | Inr s \<Rightarrow> Inr (s @ ''.allow(null)'' @ ''.required()''))
   \<and> type2joi S (UnionTypeNode [KeywordTypeNode NullKeyword n1, b]) False indent =
     (case type2joi S b False 0 of
        Inl e \<Rightarrow> Inl e
      | Inr s \<Rightarrow> Inr (s @ ''.allow(null)''))"
proof -
  have second: "type2joi S (UnionTypeNode [KeywordTypeNode NullKeyword n1, b]) required indent =
     (case type2joi S b False 0 of
        Inl e \<Rightarrow> Inl e
      | Inr s \<Rightarrow> Inr (s @ ''.allow(null)'' @ requiredMarker required))" for S n1 b required indent
    by (simp add: union2joi_two del: union2joi.simps type2joi.simps(1) split: sum.splits)
  have null: "type2joi S (KeywordTypeNode NullKeyword n2) False 0 = Inr (''Joi.'' @ n2 @ ''()'')" for S n2
    by (simp add: supportedKeywords_def requiredMarker_def)
  show ?thesis
    by (simp add: second null requiredMarker_def del: type2joi.simps split: sum.splits)
qed

end
